theory Spec2Isabelle
  imports Main
begin

section \<open>ProdCalendar: the production calendar with its two cache tiers\<close>

text \<open>
  A shallow embedding of \<^verbatim>\<open>src/__init__.py\<close>. Every method of the class
  \<^verbatim>\<open>ProdCalendar\<close> becomes a function that takes the instance's fixed attributes
  (\<open>config\<close>) and the mutable surroundings (\<open>world\<close>: the clock, the cache directory,
  the remote service and the attribute \<^verbatim>\<open>_cache_data\<close>) and returns the method's
  result, or the exception it raises, together with the new surroundings.

  Conventions of the model:
  \<^item> instants and durations are integers counting microseconds, the resolution of
    \<^verbatim>\<open>datetime\<close> and \<^verbatim>\<open>timedelta\<close>; an instant is counted in UTC from the epoch;
    the clock, the modification times and the download stamps of a world are instants
    that \<^verbatim>\<open>datetime\<close> represents, in UTC and in the local zone, while the sum of a
    \<^verbatim>\<open>datetime\<close> and the time to live may leave the years 1 to 9999, and then raises
    \<^verbatim>\<open>OverflowError\<close> as in Python;
  \<^item> a naive local \<^verbatim>\<open>datetime\<close> is the UTC instant plus the zone's offset in force at
    that instant (\<open>utcoffset\<close>);
  \<^item> one method call happens at one instant: the clock is read from the world and a
    later call is modelled by a world with a later clock;
  \<^item> the text of \<^verbatim>\<open>downloaded_dt_utc\<close> is represented by the instant it denotes, a
    whole number of seconds;
  \<^item> a JSON text either fails to parse, or is \<^verbatim>\<open>null\<close>, or is a calendar object
    with an integer \<^verbatim>\<open>year\<close> whose month entries have an integer \<^verbatim>\<open>month\<close> and a
    string \<^verbatim>\<open>days\<close>; the keys the code tests or creates (\<^verbatim>\<open>months\<close>,
    \<^verbatim>\<open>downloaded_dt_utc\<close>, \<^verbatim>\<open>days_int\<close>) may be absent;
  \<^item> strings are ASCII; creating the cache directory and opening a file for writing
    succeed.
\<close>

subsection \<open>Data\<close>

datatype error =
    ProdCalServiceNotRespond
  | ProdCalError
  | JSONDecodeError
  | KeyError
  | TypeError
  | ValueError
  | OverflowError

record date =
  year :: int
  month :: int
  day :: int

record month_entry =
  m_month :: int
  days :: string
  days_int :: "int list option"

record document =
  doc_year :: int
  months :: "month_entry list option"
  downloaded_dt_utc :: "int option"

text \<open>What parsing a JSON text gives.\<close>

datatype payload = Garbage | JNull | JDoc document

text \<open>What \<^verbatim>\<open>requests.get\<close> gives: an exception of the transport, or a status and a body.\<close>

datatype response = TransportError | Response int payload

record cache_file =
  mtime :: int
  content :: payload

record config =
  isCache :: bool
  cacheTTL :: int
  overrided_dates :: "date \<rightharpoonup> int"

text \<open>
  The cache directory holds one file per year (the file name is an injective function of
  the year, the directory and the country code being fixed), so \<open>disk\<close> is a map from the
  year. \<open>net_calls\<close> counts the calls of \<^verbatim>\<open>requests.get\<close>; the code has no such
  counter, it is there to state how many acquisitions a method performs.
\<close>

record world =
  now :: int
  utcoffset :: "int \<Rightarrow> int"
  remote :: "int \<Rightarrow> response"
  disk :: "int \<rightharpoonup> cache_file"
  cache_data :: "document option"
  net_calls :: nat

subsection \<open>The standard library: weekday, split, isdigit, int\<close>

text \<open>
  \<^verbatim>\<open>date.weekday()\<close> is \<^verbatim>\<open>(toordinal() + 6) % 7\<close>, Monday being 0 and Sunday 6; the
  ordinal counts the days from 0001-01-01 in the proleptic Gregorian calendar.
\<close>

definition is_leap :: "int \<Rightarrow> bool" where
  "is_leap y = (y mod 4 = 0 \<and> (y mod 100 \<noteq> 0 \<or> y mod 400 = 0))"

definition days_before_year :: "int \<Rightarrow> int" where
  "days_before_year y = (y - 1) * 365 + (y - 1) div 4 - (y - 1) div 100 + (y - 1) div 400"

definition days_in_month :: "int \<Rightarrow> int \<Rightarrow> int" where
  "days_in_month y m =
     (if m = 2 then (if is_leap y then 29 else 28)
      else if m = 4 \<or> m = 6 \<or> m = 9 \<or> m = 11 then 30 else 31)"

definition days_before_month :: "int \<Rightarrow> int \<Rightarrow> int" where
  "days_before_month y m = sum_list (map (days_in_month y) [1..m - 1])"

definition toordinal :: "date \<Rightarrow> int" where
  "toordinal dt = days_before_year (year dt) + days_before_month (year dt) (month dt) + day dt"

definition weekday :: "date \<Rightarrow> int" where
  "weekday dt = (toordinal dt + 6) mod 7"

text \<open>\<^verbatim>\<open>s.split(',')\<close>: the pieces between the commas, empty pieces included.\<close>

fun split_comma :: "string \<Rightarrow> string list" where
  "split_comma [] = [[]]"
| "split_comma (c # cs) =
     (if c = CHR '','' then [] # split_comma cs
      else (case split_comma cs of [] \<Rightarrow> [[c]] | t # ts \<Rightarrow> (c # t) # ts))"

definition endswith_star :: "string \<Rightarrow> bool" where
  "endswith_star x = (case rev x of [] \<Rightarrow> False | c # _ \<Rightarrow> c = CHR ''*'')"

definition isdigit :: "char \<Rightarrow> bool" where
  "isdigit c = (48 \<le> (of_char c :: nat) \<and> (of_char c :: nat) \<le> 57)"

definition digit_val :: "char \<Rightarrow> int" where
  "digit_val c = of_char c - 48"

text \<open>\<^verbatim>\<open>int(s)\<close> on a string of digits; the empty string is a \<^verbatim>\<open>ValueError\<close>.\<close>

definition py_int :: "string \<Rightarrow> error + int" where
  "py_int s = (if s = [] then Inl ValueError
               else Inr (foldl (\<lambda>a c. 10 * a + digit_val c) 0 s))"

subsection \<open>Normalising the downloaded months\<close>

text \<open>
  The comprehension of \<^verbatim>\<open>_downloadYear\<close>:
  \<^verbatim>\<open>[int(''.join([y for y in x if y.isdigit()])) for x in m['days'].split(',') if not x.endswith('*')]\<close>.
  It raises as soon as \<^verbatim>\<open>int\<close> raises.
\<close>

fun parse_tokens :: "string list \<Rightarrow> error + int list" where
  "parse_tokens [] = Inr []"
| "parse_tokens (x # xs) =
     (if endswith_star x then parse_tokens xs
      else (case py_int (filter isdigit x) of
              Inl e \<Rightarrow> Inl e
            | Inr n \<Rightarrow> (case parse_tokens xs of Inl e \<Rightarrow> Inl e | Inr ns \<Rightarrow> Inr (n # ns))))"

definition parse_days :: "string \<Rightarrow> error + int list" where
  "parse_days s = parse_tokens (split_comma s)"

text \<open>The loop \<^verbatim>\<open>for m in cal['months']: m['days_int'] = ...\<close>.\<close>

fun set_days_int :: "month_entry list \<Rightarrow> error + month_entry list" where
  "set_days_int [] = Inr []"
| "set_days_int (m # ms) =
     (case parse_days (days m) of
        Inl e \<Rightarrow> Inl e
      | Inr ds \<Rightarrow> (case set_days_int ms of
                    Inl e \<Rightarrow> Inl e
                  | Inr ms' \<Rightarrow> Inr (m\<lparr>days_int := Some ds\<rparr> # ms')))"

subsection \<open>The methods of the class\<close>

text \<open>\<^verbatim>\<open>datetime.utcnow().strftime('%Y-%m-%d %H:%M:%S')\<close> drops the microseconds.\<close>

definition strftime_utc :: "int \<Rightarrow> int" where
  "strftime_utc t = (t div 1000000) * 1000000"

text \<open>\<^verbatim>\<open>datetime.fromtimestamp(t)\<close> and \<^verbatim>\<open>datetime.now()\<close>: naive local time.\<close>

definition local_time :: "world \<Rightarrow> int \<Rightarrow> int" where
  "local_time w t = t + utcoffset w t"

text \<open>
  \<^verbatim>\<open>datetime + timedelta\<close>: the result must lie between \<^verbatim>\<open>datetime.min\<close>
  (0001-01-01 00:00:00) and \<^verbatim>\<open>datetime.max\<close> (9999-12-31 23:59:59.999999), here in
  microseconds from 1970-01-01 00:00:00; otherwise the addition raises
  \<^verbatim>\<open>OverflowError\<close>.
\<close>

definition datetime_min :: int where
  "datetime_min = - 62135596800000000"

definition datetime_max :: int where
  "datetime_max = 253402300799999999"

definition datetime_add :: "int \<Rightarrow> int \<Rightarrow> error + int" where
  "datetime_add dt td =
     (if datetime_min \<le> dt + td \<and> dt + td \<le> datetime_max then Inr (dt + td)
      else Inl OverflowError)"

definition downloadYear :: "world \<Rightarrow> int \<Rightarrow> (error + document) \<times> world" where
  "downloadYear w yr =
     (let w1 = w\<lparr>net_calls := Suc (net_calls w)\<rparr> in
      case remote w yr of
        TransportError \<Rightarrow> (Inl ProdCalServiceNotRespond, w1)
      | Response status body \<Rightarrow>
          if status \<noteq> 200 then (Inl ProdCalServiceNotRespond, w1)
          else (case body of
                  Garbage \<Rightarrow> (Inl JSONDecodeError, w1)
                | JNull \<Rightarrow> (Inl TypeError, w1)
                | JDoc cal \<Rightarrow>
                    if yr \<noteq> doc_year cal then (Inl ProdCalError, w1)
                    else (case months cal of
                            None \<Rightarrow> (Inl ProdCalError, w1)
                          | Some ms0 \<Rightarrow>
                              (case set_days_int ms0 of
                                 Inl e \<Rightarrow> (Inl e, w1)
                               | Inr ms \<Rightarrow>
                                   (Inr (cal\<lparr>months := Some ms,
                                             downloaded_dt_utc := Some (strftime_utc (now w))\<rparr>),
                                    w1)))))"

definition is_cache_file_valid :: "config \<Rightarrow> world \<Rightarrow> int \<Rightarrow> error + bool" where
  "is_cache_file_valid c w yr =
     (case disk w yr of
        None \<Rightarrow> Inr False
      | Some f \<Rightarrow>
          (case datetime_add (local_time w (mtime f)) (cacheTTL c) of
             Inl e \<Rightarrow> Inl e
           | Inr expires \<Rightarrow> Inr (expires \<ge> local_time w (now w))))"

definition is_cache_mem_data_valid :: "config \<Rightarrow> world \<Rightarrow> error + bool" where
  "is_cache_mem_data_valid c w =
     (case cache_data w of
        None \<Rightarrow> Inr False
      | Some d \<Rightarrow>
          (case downloaded_dt_utc d of
             None \<Rightarrow> Inr False
           | Some dwnl_dt \<Rightarrow>
               (case datetime_add dwnl_dt (cacheTTL c) of
                  Inl e \<Rightarrow> Inl e
                | Inr expires \<Rightarrow> Inr (expires \<ge> now w))))"

definition write_cache :: "config \<Rightarrow> world \<Rightarrow> int \<Rightarrow> (error + document) \<times> world" where
  "write_cache c w yr =
     (case downloadYear w yr of
        (Inl e, w1) \<Rightarrow> (Inl e, w1)
      | (Inr calend, w1) \<Rightarrow>
          (Inr calend,
           w1\<lparr>disk := (disk w1)(yr \<mapsto> \<lparr>mtime = now w1, content = JDoc calend\<rparr>),
              cache_data := Some calend\<rparr>))"

text \<open>
  The results of \<^verbatim>\<open>_get_cache\<close>, \<^verbatim>\<open>cache_year\<close> and \<^verbatim>\<open>_getYear\<close> are Python values
  that may be \<^verbatim>\<open>None\<close>: \<open>document option\<close>. A validity test that raises ends the
  method that called it, with the world as it was.
\<close>

definition get_cache :: "config \<Rightarrow> world \<Rightarrow> int \<Rightarrow> (error + document option) \<times> world" where
  "get_cache c w yr =
     (case disk w yr of
        None \<Rightarrow> (Inr None, w)
      | Some f \<Rightarrow>
          (case is_cache_file_valid c w yr of
             Inl e \<Rightarrow> (Inl e, w)
           | Inr valid \<Rightarrow>
               if \<not> valid then (Inr None, w)
               else (case content f of
                       Garbage \<Rightarrow> (Inl JSONDecodeError, w)
                     | JNull \<Rightarrow> (Inr None, w\<lparr>cache_data := None\<rparr>)
                     | JDoc calend \<Rightarrow> (Inr (Some calend), w\<lparr>cache_data := Some calend\<rparr>))))"

definition cache_year :: "config \<Rightarrow> world \<Rightarrow> int \<Rightarrow> bool \<Rightarrow> (error + document option) \<times> world" where
  "cache_year c w yr forced =
     (if forced \<or> disk w yr = None then
        (case write_cache c w yr of (Inl e, w1) \<Rightarrow> (Inl e, w1) | (Inr d, w1) \<Rightarrow> (Inr (Some d), w1))
      else (case is_cache_file_valid c w yr of
              Inl e \<Rightarrow> (Inl e, w)
            | Inr valid \<Rightarrow>
                if \<not> valid then
                  (case write_cache c w yr of
                     (Inl e, w1) \<Rightarrow> (Inl e, w1)
                   | (Inr d, w1) \<Rightarrow> (Inr (Some d), w1))
                else (Inr None, w)))"

definition getYear :: "config \<Rightarrow> world \<Rightarrow> int \<Rightarrow> (error + document option) \<times> world" where
  "getYear c w yr =
     (if isCache c then
        (case is_cache_mem_data_valid c w of
           Inl e \<Rightarrow> (Inl e, w)
         | Inr mem_valid \<Rightarrow>
             if mem_valid \<and> map_option doc_year (cache_data w) = Some yr
             then (Inr (cache_data w), w)
             else (case get_cache c w yr of
                     (Inl e, w1) \<Rightarrow> (Inl e, w1)
                   | (Inr cal_year, w1) \<Rightarrow>
                       (case is_cache_file_valid c w1 yr of
                          Inl e \<Rightarrow> (Inl e, w1)
                        | Inr valid \<Rightarrow>
                            if \<not> valid \<or> cal_year = None
                            then cache_year c w1 yr True
                            else (Inr cal_year, w1))))
      else (case downloadYear w yr of
              (Inl e, w1) \<Rightarrow> (Inl e, w1)
            | (Inr d, w1) \<Rightarrow> (Inr (Some d), w1)))"

definition isWorkDay :: "config \<Rightarrow> world \<Rightarrow> date \<Rightarrow> (error + bool) \<times> world" where
  "isWorkDay c w dt =
     (case overrided_dates c dt of
        Some v \<Rightarrow> (Inr (v = 0), w)
      | None \<Rightarrow>
          (case getYear c w (year dt) of
             (Inl e, w1) \<Rightarrow> (Inl e, w1)
           | (Inr None, w1) \<Rightarrow> (Inl TypeError, w1)
           | (Inr (Some cal_year), w1) \<Rightarrow>
               (case months cal_year of
                  None \<Rightarrow> (Inl KeyError, w1)
                | Some ms \<Rightarrow>
                    (case find (\<lambda>x. m_month x = month dt) ms of
                       None \<Rightarrow> (Inr (weekday dt < 5), w1)
                     | Some cal_m \<Rightarrow>
                         (case days_int cal_m of
                            None \<Rightarrow> (Inl KeyError, w1)
                          | Some ds \<Rightarrow> (Inr (day dt \<notin> set ds), w1))))))"

definition isHoliday :: "config \<Rightarrow> world \<Rightarrow> date \<Rightarrow> (error + bool) \<times> world" where
  "isHoliday c w dt =
     (case isWorkDay c w dt of
        (Inl e, w1) \<Rightarrow> (Inl e, w1)
      | (Inr b, w1) \<Rightarrow> (Inr (\<not> b), w1))"

subsection \<open>The freshness test as the specification words it\<close>


subsection \<open>Example inputs\<close>

text \<open>Concrete dates, zones, remote services, configurations and worlds for the examples.\<close>

definition zone_utc :: "int \<Rightarrow> int" where
  "zone_utc t = 0"

definition remote_down :: "int \<Rightarrow> response" where
  "remote_down yr = TransportError"

definition new_year_eve :: date where
  "new_year_eve = \<lparr>year = 2025, month = 12, day = 31\<rparr>"

definition offline_world :: world where
  "offline_world = \<lparr>now = 3000500000, utcoffset = zone_utc, remote = remote_down,
                     disk = Map.empty, cache_data = None, net_calls = 0\<rparr>"

definition override_config :: "int \<Rightarrow> config" where
  "override_config v = \<lparr>isCache = False, cacheTTL = 1800000000,
                         overrided_dates = [new_year_eve \<mapsto> v]\<rparr>"

definition raw_2025 :: document where
  "raw_2025 = \<lparr>doc_year = 2025,
               months = Some [\<lparr>m_month = 11, days = ''1*,2,3+,4,8,9'', days_int = None\<rparr>,
                              \<lparr>m_month = 12, days = ''6,7,31'', days_int = None\<rparr>],
               downloaded_dt_utc = None\<rparr>"

definition cal_2025 :: document where
  "cal_2025 = \<lparr>doc_year = 2025,
               months = Some [\<lparr>m_month = 11, days = ''1*,2,3+,4,8,9'',
                                days_int = Some [2, 3, 4, 8, 9]\<rparr>,
                              \<lparr>m_month = 12, days = ''6,7,31'', days_int = Some [6, 7, 31]\<rparr>],
               downloaded_dt_utc = Some 3000000000\<rparr>"

definition remote_2025 :: "int \<Rightarrow> response" where
  "remote_2025 yr = (if yr = 2025 then Response 200 (JDoc raw_2025) else Response 404 Garbage)"

definition online_world :: world where
  "online_world = \<lparr>now = 3000500000, utcoffset = zone_utc, remote = remote_2025,
                    disk = Map.empty, cache_data = None, net_calls = 0\<rparr>"

definition plain_config :: config where
  "plain_config = \<lparr>isCache = False, cacheTTL = 1800000000, overrided_dates = Map.empty\<rparr>"

definition august_saturday :: date where
  "august_saturday = \<lparr>year = 2025, month = 8, day = 2\<rparr>"

definition cache_config :: config where
  "cache_config = \<lparr>isCache = True, cacheTTL = 1800000000, overrided_dates = Map.empty\<rparr>"

definition garbage_world :: world where
  "garbage_world = \<lparr>now = 3000500000, utcoffset = zone_utc, remote = remote_2025,
                     disk = [2025 \<mapsto> \<lparr>mtime = 3000000000, content = Garbage\<rparr>],
                     cache_data = None, net_calls = 0\<rparr>"

definition stale_garbage_world :: world where
  "stale_garbage_world = \<lparr>now = 3000500000, utcoffset = zone_utc, remote = remote_2025,
                     disk = [2025 \<mapsto> \<lparr>mtime = 1000000000, content = Garbage\<rparr>],
                     cache_data = None, net_calls = 0\<rparr>"

definition cal_2024 :: document where
  "cal_2024 = \<lparr>doc_year = 2024,
               months = Some [\<lparr>m_month = 12, days = ''1,7,8'', days_int = Some [1, 7, 8]\<rparr>],
               downloaded_dt_utc = Some 3000000000\<rparr>"

definition misfiled_world :: world where
  "misfiled_world = \<lparr>now = 3000500000, utcoffset = zone_utc, remote = remote_2025,
                      disk = [2025 \<mapsto> \<lparr>mtime = 3000000000, content = JDoc cal_2024\<rparr>],
                      cache_data = None, net_calls = 0\<rparr>"

definition remote_wrong_year :: "int \<Rightarrow> response" where
  "remote_wrong_year yr = Response 200 (JDoc raw_2025)"

definition wrong_year_world :: world where
  "wrong_year_world = \<lparr>now = 3000500000, utcoffset = zone_utc, remote = remote_wrong_year,
                        disk = Map.empty, cache_data = None, net_calls = 0\<rparr>"

text \<open>A zone whose clocks go forward by one hour, one hour after the epoch.\<close>

definition zone_dst :: "int \<Rightarrow> int" where
  "zone_dst t = (if t < 3600000000 then 0 else 3600000000)"

definition dst_world :: world where
  "dst_world = \<lparr>now = 3000500000, utcoffset = zone_dst, remote = remote_2025,
                 disk = Map.empty, cache_data = None, net_calls = 0\<rparr>"

definition warm_world :: world where
  "warm_world = \<lparr>now = 3000500000, utcoffset = zone_utc, remote = remote_2025,
                  disk = [2025 \<mapsto> \<lparr>mtime = 3000000000, content = JDoc cal_2025\<rparr>],
                  cache_data = None, net_calls = 0\<rparr>"

section \<open>Properties\<close>

subsection \<open>Overridden dates\<close>

lemma isWorkDay_override:
  "overrided_dates c dt = Some v \<Longrightarrow> isWorkDay c w dt = (Inr (v = 0), w)"
  by (simp add: isWorkDay_def)

lemma isHoliday_override:
  "overrided_dates c dt = Some v \<Longrightarrow> isHoliday c w dt = (Inr (v \<noteq> 0), w)"
  by (simp add: isHoliday_def isWorkDay_override)

text \<open>
  C1. For a date of the override map, \<^verbatim>\<open>isWorkDay\<close> returns True when the value is 0
  and \<^verbatim>\<open>isHoliday\<close> returns True when the value is 1, in every world (whatever the
  memory holder, the cache files and the remote service hold), and the world is left as
  it was: no document is resolved.
\<close>

theorem override_zero_one:
  "(overrided_dates c dt = Some 0 \<longrightarrow> isWorkDay c w dt = (Inr True, w)) \<and>
   (overrided_dates c dt = Some 1 \<longrightarrow> isHoliday c w dt = (Inr True, w))"
  by (simp add: isWorkDay_override isHoliday_override)

theorem override_zero_one_witness:
  "overrided_dates (override_config 0) new_year_eve = Some 0 \<and>
   isWorkDay (override_config 0) offline_world new_year_eve = (Inr True, offline_world) \<and>
   overrided_dates (override_config 1) new_year_eve = Some 1 \<and>
   isHoliday (override_config 1) offline_world new_year_eve = (Inr True, offline_world)"
  using override_zero_one [of "override_config 0" new_year_eve offline_world]
        override_zero_one [of "override_config 1" new_year_eve offline_world]
  by (simp add: override_config_def)

text \<open>
  C10. For a date of the override map with any integer value \<open>v\<close>, \<^verbatim>\<open>isWorkDay\<close>
  returns \<open>v = 0\<close>; it does not raise and the world it returns is the world it was given
  (same memory holder, same files, same number of requests); its answer is the same in
  every world, also with caching disabled and the remote service down.
\<close>

theorem override_any_value_no_effect:
  "overrided_dates c dt = Some v \<Longrightarrow>
     isWorkDay c w dt = (Inr (v = 0), w) \<and>
     (\<forall>w'. fst (isWorkDay c w' dt) = fst (isWorkDay c w dt))"
  by (simp add: isWorkDay_override)

theorem override_any_value_no_effect_witness:
  "overrided_dates (override_config 7) new_year_eve = Some 7 \<and>
   \<not> isCache (override_config 7) \<and>
   remote offline_world 2025 = TransportError \<and>
   isWorkDay (override_config 7) offline_world new_year_eve = (Inr False, offline_world)"
proof -
  have h: "overrided_dates (override_config 7) new_year_eve = Some 7"
    by (simp add: override_config_def)
  show ?thesis
    using h override_any_value_no_effect [OF h, of offline_world]
    by (simp add: override_config_def offline_world_def remote_down_def)
qed

text \<open>
  C7. \<^verbatim>\<open>isHoliday\<close> is the negation of \<^verbatim>\<open>isWorkDay\<close> for every date, configuration
  and world: it raises what \<^verbatim>\<open>isWorkDay\<close> raises, returns the negated boolean otherwise,
  and has the same effect on the world. The override map is part of the configuration,
  so the override path is included.
\<close>

theorem isHoliday_negates_isWorkDay:
  "fst (isHoliday c w dt) = map_sum id Not (fst (isWorkDay c w dt)) \<and>
   snd (isHoliday c w dt) = snd (isWorkDay c w dt)"
  by (simp add: isHoliday_def split: prod.splits sum.splits)

theorem isHoliday_negates_isWorkDay_witness:
  "fst (isWorkDay (override_config 0) offline_world new_year_eve) = Inr True \<and>
   fst (isHoliday (override_config 0) offline_world new_year_eve) = Inr False"
  using isHoliday_negates_isWorkDay [of "override_config 0" offline_world new_year_eve]
  by (simp add: override_config_def isWorkDay_def)

subsection \<open>The day markers of a month\<close>





subsection \<open>Downloading, writing and reading the cache\<close>


lemma downloadYear_world:
  "snd (downloadYear w yr) = w\<lparr>net_calls := Suc (net_calls w)\<rparr>"
  by (simp add: downloadYear_def Let_def split: response.splits payload.splits option.splits sum.splits)

lemma downloadYear_Inr:
  "downloadYear w yr = (Inr d, w1) \<Longrightarrow>
     doc_year d = yr \<and> downloaded_dt_utc d = Some (strftime_utc (now w)) \<and> months d \<noteq> None"
  by (auto simp: downloadYear_def Let_def
           split: response.splits payload.splits option.splits sum.splits if_splits)

lemma downloadYear_unavailable:
  "remote w yr = TransportError \<or> (\<exists>s b. remote w yr = Response s b \<and> s \<noteq> 200) \<Longrightarrow>
     fst (downloadYear w yr) = Inl ProdCalServiceNotRespond"
  by (auto simp: downloadYear_def Let_def)

lemma downloadYear_corrupt:
  "remote w yr = Response 200 (JDoc d) \<Longrightarrow> doc_year d \<noteq> yr \<or> months d = None \<Longrightarrow>
     fst (downloadYear w yr) = Inl ProdCalError"
  by (auto simp: downloadYear_def Let_def)

lemma write_cache_eq:
  "write_cache c w yr =
     (case fst (downloadYear w yr) of
        Inl e \<Rightarrow> (Inl e, w\<lparr>net_calls := Suc (net_calls w)\<rparr>)
      | Inr d \<Rightarrow> (Inr d, w\<lparr>net_calls := Suc (net_calls w),
                           disk := (disk w)(yr \<mapsto> \<lparr>mtime = now w, content = JDoc d\<rparr>),
                           cache_data := Some d\<rparr>))"
proof -
  obtain r w1 where d: "downloadYear w yr = (r, w1)" by (cases "downloadYear w yr")
  with downloadYear_world [of w yr] have w1: "w1 = w\<lparr>net_calls := Suc (net_calls w)\<rparr>" by simp
  show ?thesis by (cases r) (simp_all add: write_cache_def d w1)
qed

lemma is_cache_file_valid_cache_data [simp]:
  "is_cache_file_valid c (w\<lparr>cache_data := x\<rparr>) yr = is_cache_file_valid c w yr"
  by (simp add: is_cache_file_valid_def local_time_def split: option.splits sum.splits)

lemma downloadYear_cache_data:
  "fst (downloadYear (w\<lparr>cache_data := x\<rparr>) yr) = fst (downloadYear w yr)"
  by (simp add: downloadYear_def Let_def split: response.splits payload.splits option.splits sum.splits)

lemma cache_year_forced:
  "cache_year c w yr True =
     (case write_cache c w yr of (Inl e, w1) \<Rightarrow> (Inl e, w1) | (Inr d, w1) \<Rightarrow> (Inr (Some d), w1))"
  by (simp add: cache_year_def)

lemma getYear_memory:
  "isCache c \<Longrightarrow> is_cache_mem_data_valid c w = Inr True \<Longrightarrow>
     map_option doc_year (cache_data w) = Some yr \<Longrightarrow>
     getYear c w yr = (Inr (cache_data w), w)"
  by (simp add: getYear_def)

lemma getYear_memory_raises:
  "isCache c \<Longrightarrow> is_cache_mem_data_valid c w = Inl e \<Longrightarrow> getYear c w yr = (Inl e, w)"
  by (simp add: getYear_def)

lemma is_cache_file_valid_file:
  "is_cache_file_valid c w yr \<noteq> Inr False \<Longrightarrow> \<exists>f. disk w yr = Some f"
  by (auto simp: is_cache_file_valid_def split: option.splits)

lemma getYear_no_cache:
  "\<not> isCache c \<Longrightarrow>
     getYear c w yr = (case downloadYear w yr of (Inl e, w1) \<Rightarrow> (Inl e, w1) | (Inr d, w1) \<Rightarrow> (Inr (Some d), w1))"
  by (simp add: getYear_def)

lemma getYear_stale:
  "isCache c \<Longrightarrow> is_cache_mem_data_valid c w = Inr mv \<Longrightarrow>
     \<not> (mv \<and> map_option doc_year (cache_data w) = Some yr) \<Longrightarrow>
     is_cache_file_valid c w yr = Inr False \<Longrightarrow> getYear c w yr = cache_year c w yr True"
  by (auto simp: getYear_def get_cache_def split: option.splits)

lemma getYear_file_raises:
  "isCache c \<Longrightarrow> is_cache_mem_data_valid c w = Inr mv \<Longrightarrow>
     \<not> (mv \<and> map_option doc_year (cache_data w) = Some yr) \<Longrightarrow>
     is_cache_file_valid c w yr = Inl e \<Longrightarrow> getYear c w yr = (Inl e, w)"
  using is_cache_file_valid_file [of c w yr]
  by (auto simp: getYear_def get_cache_def split: option.splits)

lemma getYear_fresh:
  "isCache c \<Longrightarrow> is_cache_mem_data_valid c w = Inr mv \<Longrightarrow>
     \<not> (mv \<and> map_option doc_year (cache_data w) = Some yr) \<Longrightarrow>
     is_cache_file_valid c w yr = Inr True \<Longrightarrow> disk w yr = Some f \<Longrightarrow>
     getYear c w yr =
       (case content f of
          Garbage \<Rightarrow> (Inl JSONDecodeError, w)
        | JNull \<Rightarrow> cache_year c (w\<lparr>cache_data := None\<rparr>) yr True
        | JDoc d \<Rightarrow> (Inr (Some d), w\<lparr>cache_data := Some d\<rparr>))"
  by (auto simp: getYear_def get_cache_def split: payload.splits)

lemma set_days_int_raw_2025:
  "set_days_int (the (months raw_2025)) = Inr (the (months cal_2025))"
  by (simp add: raw_2025_def cal_2025_def parse_days_def endswith_star_def isdigit_def
                py_int_def digit_val_def)

lemma download_remote_2025:
  "remote w 2025 = Response 200 (JDoc raw_2025) \<Longrightarrow> now w = 3000500000 \<Longrightarrow>
     downloadYear w 2025 = (Inr cal_2025, w\<lparr>net_calls := Suc (net_calls w)\<rparr>)"
  using set_days_int_raw_2025
  by (simp add: downloadYear_def Let_def strftime_utc_def raw_2025_def cal_2025_def)

lemma weekday_august_saturday: "weekday august_saturday = 5"
  by code_simp


subsection \<open>A month missing from the document\<close>

lemma weekday_range: "0 \<le> weekday dt \<and> weekday dt \<le> 6"
  by (simp add: weekday_def)


text \<open>
  C6. For a date that is not overridden, when the resolved document has a list of months
  and none of its entries is for the date's month, \<^verbatim>\<open>isWorkDay\<close> does not raise and
  returns \<^verbatim>\<open>weekday() < 5\<close>, which is True exactly on the weekdays 0 to 4, Monday to
  Friday.
\<close>

theorem missing_month_weekday_fallback:
  assumes "overrided_dates c dt = None"
      and "getYear c w (year dt) = (Inr (Some cal), w1)"
      and "months cal = Some ms"
      and "\<forall>m\<in>set ms. m_month m \<noteq> month dt"
  shows "isWorkDay c w dt = (Inr (weekday dt < 5), w1) \<and>
         (weekday dt < 5) = (weekday dt \<in> {0, 1, 2, 3, 4})"
proof -
  from assms(4) have "find (\<lambda>x. m_month x = month dt) ms = None"
    by (simp add: find_None_iff)
  with assms(1-3) have "isWorkDay c w dt = (Inr (weekday dt < 5), w1)"
    by (simp add: isWorkDay_def)
  moreover have "(weekday dt < 5) = (weekday dt \<in> {0, 1, 2, 3, 4})"
    using weekday_range [of dt] by auto
  ultimately show ?thesis by simp
qed

theorem missing_month_weekday_fallback_witness:
  "overrided_dates plain_config august_saturday = None \<and>
   getYear plain_config online_world (year august_saturday) =
     (Inr (Some cal_2025), online_world\<lparr>net_calls := 1\<rparr>) \<and>
   months cal_2025 = Some (the (months cal_2025)) \<and>
   map m_month (the (months cal_2025)) = [11, 12] \<and> month august_saturday = 8 \<and>
   isWorkDay plain_config online_world august_saturday =
     (Inr False, online_world\<lparr>net_calls := 1\<rparr>)"
proof -
  have a: "overrided_dates plain_config august_saturday = None"
    by (simp add: plain_config_def)
  have "downloadYear online_world 2025 = (Inr cal_2025, online_world\<lparr>net_calls := 1\<rparr>)"
    using download_remote_2025 [of online_world]
    by (simp add: online_world_def remote_2025_def)
  then have b: "getYear plain_config online_world (year august_saturday) =
      (Inr (Some cal_2025), online_world\<lparr>net_calls := 1\<rparr>)"
    by (simp add: getYear_def plain_config_def august_saturday_def)
  have c: "months cal_2025 = Some (the (months cal_2025))"
    by (simp add: cal_2025_def)
  have d: "\<forall>m\<in>set (the (months cal_2025)). m_month m \<noteq> month august_saturday"
    by (simp add: cal_2025_def august_saturday_def)
  have e: "map m_month (the (months cal_2025)) = [11, 12]" "month august_saturday = 8"
    by (simp_all add: cal_2025_def august_saturday_def)
  from missing_month_weekday_fallback [OF a b c d] a b c e weekday_august_saturday
  show ?thesis by simp
qed

subsection \<open>Resolving a year\<close>

lemma getYear_not_None: "fst (getYear c w yr) \<noteq> Inr None"
proof (cases "isCache c")
  case False
  then show ?thesis by (simp add: getYear_no_cache split: prod.splits sum.splits)
next
  case True
  show ?thesis
  proof (cases "is_cache_mem_data_valid c w")
    case (Inl e)
    with True show ?thesis by (simp add: getYear_memory_raises)
  next
    case (Inr mv)
    show ?thesis
    proof (cases "mv \<and> map_option doc_year (cache_data w) = Some yr")
      case mem: True
      with True Inr show ?thesis by (auto simp: getYear_memory)
    next
      case nomem: False
      show ?thesis
      proof (cases "is_cache_file_valid c w yr")
        case (Inl e)
        with True \<open>is_cache_mem_data_valid c w = Inr mv\<close> nomem show ?thesis
          by (simp add: getYear_file_raises)
      next
        case fv: (Inr v)
        show ?thesis
        proof (cases v)
          case False
          with True Inr nomem fv show ?thesis
            by (simp add: getYear_stale cache_year_forced write_cache_eq split: sum.splits)
        next
          case valid: True
          with fv obtain f where f: "disk w yr = Some f"
            using is_cache_file_valid_file [of c w yr] by auto
          with True Inr nomem fv valid show ?thesis
            by (simp add: getYear_fresh cache_year_forced write_cache_eq
                     split: payload.splits sum.splits)
        qed
      qed
    qed
  qed
qed

lemma downloadYear_fst_Inr:
  "fst (downloadYear w yr) = Inr d \<Longrightarrow>
     doc_year d = yr \<and> downloaded_dt_utc d = Some (strftime_utc (now w))"
  using downloadYear_Inr [of w yr d "snd (downloadYear w yr)"] by (metis prod.collapse)

text \<open>
  What a successful \<^verbatim>\<open>_getYear\<close> with caching on returned, by the tier that answered:
  the memory holder, the fresh cache file, or the network.
\<close>

lemma getYear_cached_cases:
  assumes "isCache c" and "getYear c w yr = (Inr r, w1)"
  shows "(is_cache_mem_data_valid c w = Inr True \<and> map_option doc_year (cache_data w) = Some yr \<and>
            r = cache_data w \<and> w1 = w) \<or>
         (\<not> (is_cache_mem_data_valid c w = Inr True \<and>
              map_option doc_year (cache_data w) = Some yr) \<and>
          is_cache_file_valid c w yr = Inr True \<and>
          (\<exists>f d. disk w yr = Some f \<and> content f = JDoc d \<and> r = Some d \<and>
                 w1 = w\<lparr>cache_data := Some d\<rparr>)) \<or>
         (\<not> (is_cache_mem_data_valid c w = Inr True \<and>
              map_option doc_year (cache_data w) = Some yr) \<and>
          (is_cache_file_valid c w yr = Inr False \<or>
           (is_cache_file_valid c w yr = Inr True \<and>
            (\<exists>f. disk w yr = Some f \<and> content f = JNull))) \<and>
          (\<exists>d. r = Some d \<and> fst (downloadYear w yr) = Inr d \<and> cache_data w1 = Some d \<and>
               net_calls w1 = Suc (net_calls w)))"
proof (cases "is_cache_mem_data_valid c w")
  case (Inl e)
  with assms show ?thesis by (simp add: getYear_memory_raises)
next
  case (Inr mv)
  show ?thesis
  proof (cases "mv \<and> map_option doc_year (cache_data w) = Some yr")
    case mem: True
    with assms Inr show ?thesis by (auto simp: getYear_memory)
  next
    case nomem: False
    then have nomem': "\<not> (is_cache_mem_data_valid c w = Inr True \<and>
              map_option doc_year (cache_data w) = Some yr)"
      using Inr by auto
    show ?thesis
    proof (cases "is_cache_file_valid c w yr")
      case (Inl e)
      with assms \<open>is_cache_mem_data_valid c w = Inr mv\<close> nomem show ?thesis
        by (simp add: getYear_file_raises)
    next
      case fv: (Inr v)
      show ?thesis
      proof (cases v)
        case False
        with assms Inr nomem nomem' fv show ?thesis
          by (auto simp: getYear_stale cache_year_forced write_cache_eq split: sum.splits)
      next
        case valid: True
        with fv obtain f where f: "disk w yr = Some f"
          using is_cache_file_valid_file [of c w yr] by auto
        show ?thesis
        proof (cases "content f")
          case Garbage
          with assms Inr nomem fv valid f show ?thesis by (simp add: getYear_fresh)
        next
          case JNull
          with assms Inr nomem fv valid f
          have "\<exists>d. r = Some d \<and> fst (downloadYear w yr) = Inr d \<and> cache_data w1 = Some d \<and>
               net_calls w1 = Suc (net_calls w)"
            by (auto simp: getYear_fresh cache_year_forced write_cache_eq downloadYear_cache_data
                     split: sum.splits)
          with nomem' fv valid f JNull show ?thesis by auto
        next
          case (JDoc d)
          with assms Inr nomem fv valid f
          have "r = Some d \<and> w1 = w\<lparr>cache_data := Some d\<rparr>"
            by (auto simp: getYear_fresh)
          with nomem' fv valid f JDoc show ?thesis by auto
        qed
      qed
    qed
  qed
qed

lemma getYear_returns_year:
  assumes "getYear c w yr = (Inr (Some d), w1)"
  shows "doc_year d = yr \<or>
         (isCache c \<and> is_cache_file_valid c w yr = Inr True \<and>
          (\<exists>f. disk w yr = Some f \<and> content f = JDoc d))"
proof (cases "isCache c")
  case False
  with assms obtain w' where "downloadYear w yr = (Inr d, w')"
    by (auto simp: getYear_no_cache split: prod.splits sum.splits)
  then show ?thesis using downloadYear_Inr by blast
next
  case True
  from getYear_cached_cases [OF True assms] show ?thesis
    using True downloadYear_fst_Inr by fastforce
qed

lemma getYear_acquires:
  assumes "\<not> isCache c \<or>
           (\<not> (is_cache_mem_data_valid c w = Inr True \<and>
                map_option doc_year (cache_data w) = Some yr) \<and>
            is_cache_mem_data_valid c w \<noteq> Inl OverflowError \<and>
            (is_cache_file_valid c w yr = Inr False \<or>
             (is_cache_file_valid c w yr = Inr True \<and>
              (\<exists>f. disk w yr = Some f \<and> content f = JNull))))"
  shows "fst (getYear c w yr) = map_sum id Some (fst (downloadYear w yr)) \<and>
         net_calls (snd (getYear c w yr)) = Suc (net_calls w)"
proof (cases "isCache c")
  case False
  then show ?thesis
    using downloadYear_world [of w yr]
    by (auto simp: getYear_no_cache split: prod.splits sum.splits)
next
  case True
  have ov: "is_cache_mem_data_valid c w = Inl e \<Longrightarrow> e = OverflowError" for e
    by (auto simp: is_cache_mem_data_valid_def datetime_add_def
             split: option.splits sum.splits if_splits)
  from True assms obtain mv where mv: "is_cache_mem_data_valid c w = Inr mv"
    using ov by (cases "is_cache_mem_data_valid c w") auto
  with True assms have nomem: "\<not> (mv \<and> map_option doc_year (cache_data w) = Some yr)"
    and or: "is_cache_file_valid c w yr = Inr False \<or>
             (is_cache_file_valid c w yr = Inr True \<and>
              (\<exists>f. disk w yr = Some f \<and> content f = JNull))"
    by auto
  from or show ?thesis
  proof
    assume "is_cache_file_valid c w yr = Inr False"
    with True mv nomem show ?thesis
      by (simp add: getYear_stale cache_year_forced write_cache_eq split: sum.splits)
  next
    assume "is_cache_file_valid c w yr = Inr True \<and>
              (\<exists>f. disk w yr = Some f \<and> content f = JNull)"
    then obtain f where "is_cache_file_valid c w yr = Inr True" "disk w yr = Some f"
      "content f = JNull" by auto
    with True mv nomem show ?thesis
      by (simp add: getYear_fresh cache_year_forced write_cache_eq downloadYear_cache_data
               split: sum.splits)
  qed
qed

lemma write_cache_2025:
  "remote w 2025 = Response 200 (JDoc raw_2025) \<Longrightarrow> now w = 3000500000 \<Longrightarrow>
     write_cache c w 2025 =
       (Inr cal_2025,
        w\<lparr>net_calls := Suc (net_calls w),
          disk := (disk w)(2025 \<mapsto> \<lparr>mtime = 3000500000, content = JDoc cal_2025\<rparr>),
          cache_data := Some cal_2025\<rparr>)"
  using download_remote_2025 [of w] by (simp add: write_cache_eq)

lemmas validity_defs =
  is_cache_file_valid_def is_cache_mem_data_valid_def datetime_add_def datetime_min_def
  datetime_max_def local_time_def

lemma unforced_cache_year_cases:
  "cache_year c w yr False =
     (case is_cache_file_valid c w yr of
        Inl e \<Rightarrow> (Inl e, w)
      | Inr valid \<Rightarrow> if valid then (Inr None, w) else cache_year c w yr True)"
  by (auto simp: cache_year_def is_cache_file_valid_def split: sum.splits)

lemma is_cache_mem_data_valid_frame [simp]:
  "is_cache_mem_data_valid c (w\<lparr>disk := dk\<rparr>) = is_cache_mem_data_valid c w"
  "is_cache_mem_data_valid c (w\<lparr>remote := rm\<rparr>) = is_cache_mem_data_valid c w"
  by (simp_all add: is_cache_mem_data_valid_def split: option.splits sum.splits)

subsection \<open>A cache file that does not parse\<close>

text \<open>
  C2, as the claim states it, fails: with caching on, an empty memory holder and a fresh
  cache file for 2025 that does not parse, \<^verbatim>\<open>_getYear\<close> raises the error of
  \<^verbatim>\<open>json.load\<close> and does not go to the network, although the remote service would
  have answered.
\<close>

theorem unparsable_fresh_file_counterexample:
  "isCache cache_config \<and>
   is_cache_file_valid cache_config garbage_world 2025 = Inr True \<and>
   map_option content (disk garbage_world 2025) = Some Garbage \<and>
   remote garbage_world 2025 = Response 200 (JDoc raw_2025) \<and>
   getYear cache_config garbage_world 2025 = (Inl JSONDecodeError, garbage_world)"
  by (simp add: cache_config_def garbage_world_def getYear_def get_cache_def
        validity_defs zone_utc_def remote_2025_def)

text \<open>
  C2, amended. With caching on and the memory test returning without the memory holder
  answering for the year, a cache file that does not parse makes \<^verbatim>\<open>_getYear\<close> raise
  the parse error when the file is judged fresh (it is then read): no request is made and
  the world is unchanged. When the test of the file raises, that error is raised, again
  with the world unchanged. Only when the file is judged stale (it is then not read) is it
  treated as a cache miss: one request is made; if the download raises, that error is
  raised, and otherwise the downloaded document is returned, written over the file and
  put in the memory holder.
\<close>

theorem unparsable_cache_file:
  assumes "isCache c"
      and "is_cache_mem_data_valid c w = Inr mem_valid"
      and "\<not> (mem_valid \<and> map_option doc_year (cache_data w) = Some yr)"
      and "disk w yr = Some f"
      and "content f = Garbage"
  shows "(is_cache_file_valid c w yr = Inr True \<longrightarrow> getYear c w yr = (Inl JSONDecodeError, w)) \<and>
         (\<forall>e. is_cache_file_valid c w yr = Inl e \<longrightarrow> getYear c w yr = (Inl e, w)) \<and>
         (is_cache_file_valid c w yr = Inr False \<longrightarrow>
            (\<forall>e. fst (downloadYear w yr) = Inl e \<longrightarrow>
                 getYear c w yr = (Inl e, w\<lparr>net_calls := Suc (net_calls w)\<rparr>)) \<and>
            (\<forall>d. fst (downloadYear w yr) = Inr d \<longrightarrow>
                 getYear c w yr =
                   (Inr (Some d),
                    w\<lparr>net_calls := Suc (net_calls w),
                      disk := (disk w)(yr \<mapsto> \<lparr>mtime = now w, content = JDoc d\<rparr>),
                      cache_data := Some d\<rparr>)))"
proof (intro conjI impI allI)
  assume "is_cache_file_valid c w yr = Inr True"
  with assms show "getYear c w yr = (Inl JSONDecodeError, w)"
    by (simp add: getYear_fresh)
next
  fix e assume "is_cache_file_valid c w yr = Inl e"
  with assms(1-3) show "getYear c w yr = (Inl e, w)"
    by (rule getYear_file_raises)
next
  fix e assume "is_cache_file_valid c w yr = Inr False" "fst (downloadYear w yr) = Inl e"
  with assms(1-3) show "getYear c w yr = (Inl e, w\<lparr>net_calls := Suc (net_calls w)\<rparr>)"
    by (simp add: getYear_stale cache_year_forced write_cache_eq)
next
  fix d assume "is_cache_file_valid c w yr = Inr False" "fst (downloadYear w yr) = Inr d"
  with assms(1-3) show "getYear c w yr =
      (Inr (Some d),
       w\<lparr>net_calls := Suc (net_calls w),
         disk := (disk w)(yr \<mapsto> \<lparr>mtime = now w, content = JDoc d\<rparr>),
         cache_data := Some d\<rparr>)"
    by (simp add: getYear_stale cache_year_forced write_cache_eq)
qed

theorem unparsable_cache_file_witness:
  "isCache cache_config \<and>
   is_cache_mem_data_valid cache_config garbage_world = Inr False \<and>
   is_cache_file_valid cache_config garbage_world 2025 = Inr True \<and>
   getYear cache_config garbage_world 2025 = (Inl JSONDecodeError, garbage_world) \<and>
   is_cache_mem_data_valid cache_config stale_garbage_world = Inr False \<and>
   is_cache_file_valid cache_config stale_garbage_world 2025 = Inr False \<and>
   getYear cache_config stale_garbage_world 2025 =
     (Inr (Some cal_2025),
      stale_garbage_world\<lparr>net_calls := 1,
        disk := (disk stale_garbage_world)(2025 \<mapsto> \<lparr>mtime = 3000500000, content = JDoc cal_2025\<rparr>),
        cache_data := Some cal_2025\<rparr>)"
proof -
  have c: "isCache cache_config" by (simp add: cache_config_def)
  have m1: "is_cache_mem_data_valid cache_config garbage_world = Inr False"
    by (simp add: is_cache_mem_data_valid_def garbage_world_def)
  have m2: "is_cache_mem_data_valid cache_config stale_garbage_world = Inr False"
    by (simp add: is_cache_mem_data_valid_def stale_garbage_world_def)
  have n: "\<not> (False \<and> map_option doc_year (cache_data w) = Some 2025)" for w :: world
    by simp
  have d1: "disk garbage_world 2025 = Some \<lparr>mtime = 3000000000, content = Garbage\<rparr>"
    by (simp add: garbage_world_def)
  have d2: "disk stale_garbage_world 2025 = Some \<lparr>mtime = 1000000000, content = Garbage\<rparr>"
    by (simp add: stale_garbage_world_def)
  have v1: "is_cache_file_valid cache_config garbage_world 2025 = Inr True"
    by (simp add: validity_defs garbage_world_def cache_config_def zone_utc_def)
  have v2: "is_cache_file_valid cache_config stale_garbage_world 2025 = Inr False"
    by (simp add: validity_defs stale_garbage_world_def cache_config_def zone_utc_def)
  have dl: "fst (downloadYear stale_garbage_world 2025) = Inr cal_2025"
    using download_remote_2025 [of stale_garbage_world]
    by (simp add: stale_garbage_world_def remote_2025_def)
  have nw: "now stale_garbage_world = 3000500000" "net_calls stale_garbage_world = 0"
    by (simp_all add: stale_garbage_world_def)
  from unparsable_cache_file [OF c m1 n d1] v1
  have r1: "getYear cache_config garbage_world 2025 = (Inl JSONDecodeError, garbage_world)"
    by simp
  from unparsable_cache_file [OF c m2 n d2] v2 dl nw
  have r2: "getYear cache_config stale_garbage_world 2025 =
     (Inr (Some cal_2025),
      stale_garbage_world\<lparr>net_calls := 1,
        disk := (disk stale_garbage_world)(2025 \<mapsto> \<lparr>mtime = 3000500000, content = JDoc cal_2025\<rparr>),
        cache_data := Some cal_2025\<rparr>)"
    by simp
  from c m1 v1 r1 m2 v2 r2 show ?thesis by simp
qed

subsection \<open>The year of the resolved document, and the errors of resolution\<close>

text \<open>
  C3, as the claim states it, fails: a fresh cache file under the name of 2025 that holds
  a document of 2024 is returned by \<^verbatim>\<open>_getYear(2025)\<close> as it is; the year of a document
  read from disk is not compared with the requested year.
\<close>

theorem misfiled_document_counterexample:
  "getYear cache_config misfiled_world 2025 =
     (Inr (Some cal_2024), misfiled_world\<lparr>cache_data := Some cal_2024\<rparr>) \<and>
   doc_year cal_2024 \<noteq> 2025"
  by (simp add: cache_config_def misfiled_world_def getYear_def get_cache_def
        validity_defs zone_utc_def cal_2024_def)

text \<open>
  C3, amended. A document returned by \<^verbatim>\<open>_getYear\<close> for the year \<open>yr\<close> has the year
  \<open>yr\<close>, unless it is the content of the fresh cache file of \<open>yr\<close> (which is returned
  unchecked); \<^verbatim>\<open>_getYear\<close> never returns \<^verbatim>\<open>None\<close>. When a network acquisition is
  required, that is, when caching is off, or when the two validity tests return, the
  memory holder does not answer (it is judged stale or holds another year) and the cache
  file does not answer (it is absent or judged stale, or it is fresh and holds
  \<^verbatim>\<open>null\<close>): a transport failure or a status other than 200 raises
  \<^verbatim>\<open>ProdCalServiceNotRespond\<close>, and a fetched document of another year or without
  \<^verbatim>\<open>months\<close> raises \<^verbatim>\<open>ProdCalError\<close>.
\<close>

theorem getYear_year_and_errors:
  "(\<forall>d w1. getYear c w yr = (Inr (Some d), w1) \<longrightarrow>
       doc_year d = yr \<or>
       (isCache c \<and> is_cache_file_valid c w yr = Inr True \<and>
        (\<exists>f. disk w yr = Some f \<and> content f = JDoc d))) \<and>
   fst (getYear c w yr) \<noteq> Inr None \<and>
   ((\<not> isCache c \<or>
     ((is_cache_mem_data_valid c w = Inr False \<or>
       (is_cache_mem_data_valid c w = Inr True \<and>
        map_option doc_year (cache_data w) \<noteq> Some yr)) \<and>
      (is_cache_file_valid c w yr = Inr False \<or>
       (is_cache_file_valid c w yr = Inr True \<and>
        (\<exists>f. disk w yr = Some f \<and> content f = JNull))))) \<longrightarrow>
    ((remote w yr = TransportError \<or> (\<exists>s b. remote w yr = Response s b \<and> s \<noteq> 200)) \<longrightarrow>
       fst (getYear c w yr) = Inl ProdCalServiceNotRespond) \<and>
    (\<forall>d. remote w yr = Response 200 (JDoc d) \<and> (doc_year d \<noteq> yr \<or> months d = None) \<longrightarrow>
       fst (getYear c w yr) = Inl ProdCalError))"
proof (intro conjI impI allI)
  fix d w1 assume "getYear c w yr = (Inr (Some d), w1)"
  then show "doc_year d = yr \<or>
       (isCache c \<and> is_cache_file_valid c w yr = Inr True \<and>
        (\<exists>f. disk w yr = Some f \<and> content f = JDoc d))"
    by (rule getYear_returns_year)
next
  show "fst (getYear c w yr) \<noteq> Inr None" by (rule getYear_not_None)
next
  assume a: "\<not> isCache c \<or>
     ((is_cache_mem_data_valid c w = Inr False \<or>
       (is_cache_mem_data_valid c w = Inr True \<and>
        map_option doc_year (cache_data w) \<noteq> Some yr)) \<and>
      (is_cache_file_valid c w yr = Inr False \<or>
       (is_cache_file_valid c w yr = Inr True \<and>
        (\<exists>f. disk w yr = Some f \<and> content f = JNull))))"
    and r: "remote w yr = TransportError \<or> (\<exists>s b. remote w yr = Response s b \<and> s \<noteq> 200)"
  from a have "fst (getYear c w yr) = map_sum id Some (fst (downloadYear w yr))"
    by (intro getYear_acquires [THEN conjunct1]) auto
  with downloadYear_unavailable [OF r]
  show "fst (getYear c w yr) = Inl ProdCalServiceNotRespond" by simp
next
  fix d
  assume a: "\<not> isCache c \<or>
     ((is_cache_mem_data_valid c w = Inr False \<or>
       (is_cache_mem_data_valid c w = Inr True \<and>
        map_option doc_year (cache_data w) \<noteq> Some yr)) \<and>
      (is_cache_file_valid c w yr = Inr False \<or>
       (is_cache_file_valid c w yr = Inr True \<and>
        (\<exists>f. disk w yr = Some f \<and> content f = JNull))))"
    and r: "remote w yr = Response 200 (JDoc d) \<and> (doc_year d \<noteq> yr \<or> months d = None)"
  from r have "fst (downloadYear w yr) = Inl ProdCalError"
    using downloadYear_corrupt by blast
  moreover from a have "fst (getYear c w yr) = map_sum id Some (fst (downloadYear w yr))"
    by (intro getYear_acquires [THEN conjunct1]) auto
  ultimately show "fst (getYear c w yr) = Inl ProdCalError" by simp
qed

theorem getYear_year_and_errors_witness:
  "getYear plain_config online_world 2025 =
     (Inr (Some cal_2025), online_world\<lparr>net_calls := 1\<rparr>) \<and>
   doc_year cal_2025 = 2025 \<and>
   isCache cache_config \<and>
   is_cache_mem_data_valid cache_config offline_world = Inr False \<and>
   is_cache_file_valid cache_config offline_world 2025 = Inr False \<and>
   remote offline_world 2025 = TransportError \<and>
   fst (getYear cache_config offline_world 2025) = Inl ProdCalServiceNotRespond \<and>
   is_cache_mem_data_valid cache_config wrong_year_world = Inr False \<and>
   is_cache_file_valid cache_config wrong_year_world 2024 = Inr False \<and>
   remote wrong_year_world 2024 = Response 200 (JDoc raw_2025) \<and>
   doc_year raw_2025 \<noteq> 2024 \<and>
   fst (getYear cache_config wrong_year_world 2024) = Inl ProdCalError"
proof -
  have "downloadYear online_world 2025 = (Inr cal_2025, online_world\<lparr>net_calls := 1\<rparr>)"
    using download_remote_2025 [of online_world]
    by (simp add: online_world_def remote_2025_def)
  then have a: "getYear plain_config online_world 2025 =
      (Inr (Some cal_2025), online_world\<lparr>net_calls := 1\<rparr>)"
    by (simp add: getYear_def plain_config_def)
  have nc: "\<not> isCache plain_config" by (simp add: plain_config_def)
  have c: "isCache cache_config" by (simp add: cache_config_def)
  have m1: "is_cache_mem_data_valid cache_config offline_world = Inr False"
    by (simp add: is_cache_mem_data_valid_def offline_world_def)
  have v1: "is_cache_file_valid cache_config offline_world 2025 = Inr False"
    by (simp add: is_cache_file_valid_def offline_world_def)
  have r1: "remote offline_world 2025 = TransportError"
    by (simp add: offline_world_def remote_down_def)
  have m2: "is_cache_mem_data_valid cache_config wrong_year_world = Inr False"
    by (simp add: is_cache_mem_data_valid_def wrong_year_world_def)
  have v2: "is_cache_file_valid cache_config wrong_year_world 2024 = Inr False"
    by (simp add: is_cache_file_valid_def wrong_year_world_def)
  have r2: "remote wrong_year_world 2024 = Response 200 (JDoc raw_2025)"
    by (simp add: wrong_year_world_def remote_wrong_year_def)
  have y: "doc_year raw_2025 \<noteq> 2024" "doc_year cal_2025 = 2025"
    by (simp_all add: raw_2025_def cal_2025_def)
  from getYear_year_and_errors [of plain_config online_world 2025] a nc y
  have p1: "doc_year cal_2025 = 2025" by simp
  from getYear_year_and_errors [of cache_config offline_world 2025] m1 v1 r1
  have p2: "fst (getYear cache_config offline_world 2025) = Inl ProdCalServiceNotRespond"
    by simp
  from getYear_year_and_errors [of cache_config wrong_year_world 2024] m2 v2 r2 y
  have p3: "fst (getYear cache_config wrong_year_world 2024) = Inl ProdCalError"
    by simp
  from a p1 c m1 v1 r1 p2 m2 v2 r2 y p3 show ?thesis by simp
qed

subsection \<open>Freshness in the two tiers\<close>




text \<open>
  Across a change of the zone's offset the disk test, which computes on naive local
  times, can judge the file written by an acquisition stale while the memory copy of
  that acquisition is judged fresh.
\<close>

lemma offset_change_judges_written_file_stale:
  "fst (write_cache cache_config dst_world 2025) = Inr cal_2025 \<and>
   is_cache_mem_data_valid cache_config
     ((snd (write_cache cache_config dst_world 2025))\<lparr>now := 3900000000\<rparr>) = Inr True \<and>
   is_cache_file_valid cache_config
     ((snd (write_cache cache_config dst_world 2025))\<lparr>now := 3900000000\<rparr>) 2025 = Inr False"
proof -
  have "write_cache cache_config dst_world 2025 =
       (Inr cal_2025,
        dst_world\<lparr>net_calls := Suc (net_calls dst_world),
          disk := (disk dst_world)(2025 \<mapsto> \<lparr>mtime = 3000500000, content = JDoc cal_2025\<rparr>),
          cache_data := Some cal_2025\<rparr>)"
    by (rule write_cache_2025) (simp_all add: dst_world_def remote_2025_def)
  then show ?thesis
    by (simp add: validity_defs dst_world_def zone_dst_def cache_config_def cal_2025_def)
qed

subsection \<open>Resolving the same year twice\<close>

text \<open>
  C8, as the claim states it, fails. With caching on, an empty memory holder and a fresh
  valid cache file, two successive calls make no request at all, not one. And from a cold
  cache, a second call 1799.7 seconds after the first, with a time to live of 1800
  seconds, finds the memory copy judged stale (its stamp has lost half a second): it is
  not answered from the memory holder.
\<close>

theorem warm_cache_counterexample:
  "isCache cache_config \<and>
   is_cache_file_valid cache_config warm_world 2025 = Inr True \<and>
   fst (getYear cache_config warm_world 2025) = Inr (Some cal_2025) \<and>
   getYear cache_config (snd (getYear cache_config warm_world 2025)) 2025 =
     (Inr (Some cal_2025), snd (getYear cache_config warm_world 2025)) \<and>
   net_calls (snd (getYear cache_config warm_world 2025)) = net_calls warm_world \<and>
   fst (getYear cache_config online_world 2025) = Inr (Some cal_2025) \<and>
   4800200000 - now online_world < cacheTTL cache_config \<and>
   is_cache_mem_data_valid cache_config
     ((snd (getYear cache_config online_world 2025))\<lparr>now := 4800200000\<rparr>) = Inr False"
proof -
  have c: "isCache cache_config" by (simp add: cache_config_def)
  have v: "is_cache_file_valid cache_config warm_world 2025 = Inr True"
    by (simp add: validity_defs warm_world_def cache_config_def zone_utc_def)
  have g1: "getYear cache_config warm_world 2025 =
      (Inr (Some cal_2025), warm_world\<lparr>cache_data := Some cal_2025\<rparr>)"
    by (simp add: getYear_def get_cache_def validity_defs warm_world_def cache_config_def
          zone_utc_def)
  have g2: "getYear cache_config (warm_world\<lparr>cache_data := Some cal_2025\<rparr>) 2025 =
      (Inr (Some cal_2025), warm_world\<lparr>cache_data := Some cal_2025\<rparr>)"
    by (simp add: getYear_def validity_defs warm_world_def cache_config_def cal_2025_def)
  have w: "write_cache cache_config online_world 2025 =
       (Inr cal_2025,
        online_world\<lparr>net_calls := Suc (net_calls online_world),
          disk := (disk online_world)(2025 \<mapsto> \<lparr>mtime = 3000500000, content = JDoc cal_2025\<rparr>),
          cache_data := Some cal_2025\<rparr>)"
    by (rule write_cache_2025) (simp_all add: online_world_def remote_2025_def)
  have m0: "is_cache_mem_data_valid cache_config online_world = Inr False"
    by (simp add: is_cache_mem_data_valid_def online_world_def)
  have v0: "is_cache_file_valid cache_config online_world 2025 = Inr False"
    by (simp add: is_cache_file_valid_def online_world_def)
  have g3: "getYear cache_config online_world 2025 =
       (Inr (Some cal_2025),
        online_world\<lparr>net_calls := Suc (net_calls online_world),
          disk := (disk online_world)(2025 \<mapsto> \<lparr>mtime = 3000500000, content = JDoc cal_2025\<rparr>),
          cache_data := Some cal_2025\<rparr>)"
    using getYear_stale [OF c m0 _ v0] w by (simp add: cache_year_forced)
  have t: "4800200000 - now online_world < cacheTTL cache_config"
    by (simp add: online_world_def cache_config_def)
  have m: "is_cache_mem_data_valid cache_config
     ((snd (getYear cache_config online_world 2025))\<lparr>now := 4800200000\<rparr>) = Inr False"
    unfolding g3 by (simp add: validity_defs cache_config_def cal_2025_def)
  from c v g1 g2 g3 t m show ?thesis by simp
qed

text \<open>
  C8, amended. With caching on, a successful \<^verbatim>\<open>_getYear\<close> makes no request when the
  memory holder or a fresh cache file answers and exactly one otherwise, and the document
  it returns is the one it leaves in the memory holder. A second call for the same year
  at an instant \<open>t\<close> is answered from the memory holder (same document, world unchanged,
  no request, whatever the cache directory and the remote service hold then) whenever
  the memory test passes at \<open>t\<close> and the document is of that year; after a first call
  that acquired, the document is of that year and the memory test at \<open>t\<close> is: download
  time without its fraction of a second, plus the time to live, is a \<^verbatim>\<open>datetime\<close> not
  before \<open>t\<close>. So the two calls make one request in total from a cold cache.
\<close>

theorem two_resolutions:
  assumes "isCache c" and "getYear c w yr = (Inr r, w1)"
  shows "net_calls w1 =
           (if (is_cache_mem_data_valid c w = Inr True \<and>
                map_option doc_year (cache_data w) = Some yr) \<or>
               (is_cache_file_valid c w yr = Inr True \<and>
                (\<exists>f d. disk w yr = Some f \<and> content f = JDoc d))
            then net_calls w else Suc (net_calls w)) \<and>
         r = cache_data w1 \<and> r \<noteq> None \<and>
         (\<forall>t dk rm.
            is_cache_mem_data_valid c (w1\<lparr>now := t\<rparr>) = Inr True \<and>
            map_option doc_year r = Some yr \<longrightarrow>
            getYear c (w1\<lparr>now := t, disk := dk, remote := rm\<rparr>) yr =
              (Inr r, w1\<lparr>now := t, disk := dk, remote := rm\<rparr>)) \<and>
         (net_calls w1 = Suc (net_calls w) \<longrightarrow>
            map_option doc_year r = Some yr \<and>
            (\<forall>t. is_cache_mem_data_valid c (w1\<lparr>now := t\<rparr>) =
                 (case datetime_add (strftime_utc (now w)) (cacheTTL c) of
                    Inl e \<Rightarrow> Inl e
                  | Inr expires \<Rightarrow> Inr (expires \<ge> t))))"
proof -
  let ?M = "is_cache_mem_data_valid c w = Inr True \<and>
              map_option doc_year (cache_data w) = Some yr"
  let ?F = "is_cache_file_valid c w yr = Inr True \<and>
               (\<exists>f d. disk w yr = Some f \<and> content f = JDoc d)"
  from getYear_cached_cases [OF assms]
  consider (from_memory) "?M" "r = cache_data w" "w1 = w"
    | (from_file) f d where "\<not> ?M" "is_cache_file_valid c w yr = Inr True" "disk w yr = Some f"
        "content f = JDoc d" "r = Some d" "w1 = w\<lparr>cache_data := Some d\<rparr>"
    | (from_network) d where "\<not> ?M" "\<not> ?F" "r = Some d" "fst (downloadYear w yr) = Inr d"
        "cache_data w1 = Some d" "net_calls w1 = Suc (net_calls w)"
    by fastforce
  then have first: "net_calls w1 = (if ?M \<or> ?F then net_calls w else Suc (net_calls w)) \<and>
      r = cache_data w1 \<and> r \<noteq> None \<and>
      (net_calls w1 = Suc (net_calls w) \<longrightarrow>
         (\<exists>d. r = Some d \<and> doc_year d = yr \<and>
              downloaded_dt_utc d = Some (strftime_utc (now w))))"
  proof cases
    case from_memory
    then show ?thesis by (auto simp: is_cache_mem_data_valid_def split: option.splits)
  next
    case from_file
    then show ?thesis by auto
  next
    case from_network
    then show ?thesis using downloadYear_fst_Inr [of w yr d] by auto
  qed
  have second: "getYear c (w1\<lparr>now := t, disk := dk, remote := rm\<rparr>) yr =
              (Inr r, w1\<lparr>now := t, disk := dk, remote := rm\<rparr>)"
    if "is_cache_mem_data_valid c (w1\<lparr>now := t\<rparr>) = Inr True \<and> map_option doc_year r = Some yr"
    for t dk rm
  proof -
    have "is_cache_mem_data_valid c (w1\<lparr>now := t, disk := dk, remote := rm\<rparr>) = Inr True"
      using that by simp
    moreover have "map_option doc_year (cache_data (w1\<lparr>now := t, disk := dk, remote := rm\<rparr>)) = Some yr"
      using that first by simp
    ultimately show ?thesis
      using getYear_memory [OF assms(1), of "w1\<lparr>now := t, disk := dk, remote := rm\<rparr>" yr] first
      by simp
  qed
  have third: "map_option doc_year r = Some yr \<and>
            (\<forall>t. is_cache_mem_data_valid c (w1\<lparr>now := t\<rparr>) =
                 (case datetime_add (strftime_utc (now w)) (cacheTTL c) of
                    Inl e \<Rightarrow> Inl e
                  | Inr expires \<Rightarrow> Inr (expires \<ge> t)))"
    if "net_calls w1 = Suc (net_calls w)"
  proof -
    from first that obtain d where d: "r = Some d" "doc_year d = yr"
      "downloaded_dt_utc d = Some (strftime_utc (now w))" by blast
    with first have "cache_data w1 = Some d" by simp
    with d show ?thesis by (simp add: is_cache_mem_data_valid_def split: sum.splits)
  qed
  from first second third show ?thesis by blast
qed

theorem two_resolutions_witness:
  "isCache cache_config \<and>
   is_cache_mem_data_valid cache_config online_world = Inr False \<and>
   is_cache_file_valid cache_config online_world 2025 = Inr False \<and>
   fst (getYear cache_config online_world 2025) = Inr (Some cal_2025) \<and>
   net_calls (snd (getYear cache_config online_world 2025)) = Suc (net_calls online_world) \<and>
   is_cache_mem_data_valid cache_config
     ((snd (getYear cache_config online_world 2025))\<lparr>now := 3900000000\<rparr>) = Inr True \<and>
   getYear cache_config
     ((snd (getYear cache_config online_world 2025))
        \<lparr>now := 3900000000, disk := Map.empty, remote := remote_down\<rparr>) 2025 =
     (Inr (Some cal_2025),
      (snd (getYear cache_config online_world 2025))
        \<lparr>now := 3900000000, disk := Map.empty, remote := remote_down\<rparr>)"
proof -
  have c: "isCache cache_config" by (simp add: cache_config_def)
  have w: "write_cache cache_config online_world 2025 =
       (Inr cal_2025,
        online_world\<lparr>net_calls := Suc (net_calls online_world),
          disk := (disk online_world)(2025 \<mapsto> \<lparr>mtime = 3000500000, content = JDoc cal_2025\<rparr>),
          cache_data := Some cal_2025\<rparr>)"
    by (rule write_cache_2025) (simp_all add: online_world_def remote_2025_def)
  have m0: "is_cache_mem_data_valid cache_config online_world = Inr False"
    by (simp add: is_cache_mem_data_valid_def online_world_def)
  have v0: "is_cache_file_valid cache_config online_world 2025 = Inr False"
    by (simp add: is_cache_file_valid_def online_world_def)
  have gf: "fst (getYear cache_config online_world 2025) = Inr (Some cal_2025)"
    using getYear_stale [OF c m0 _ v0] w by (simp add: cache_year_forced)
  then have g: "getYear cache_config online_world 2025 =
      (Inr (Some cal_2025), snd (getYear cache_config online_world 2025))"
    by (metis prod.collapse)
  have y: "map_option doc_year (Some cal_2025) = Some 2025"
    by (simp add: cal_2025_def)
  have ex: "datetime_add (strftime_utc (now online_world)) (cacheTTL cache_config) =
      Inr 4800000000"
    by (simp add: datetime_add_def datetime_min_def datetime_max_def strftime_utc_def
          online_world_def cache_config_def)
  note r = two_resolutions [OF c g]
  from r m0 v0 have n: "net_calls (snd (getYear cache_config online_world 2025)) =
      Suc (net_calls online_world)"
    by simp
  with r ex have m: "is_cache_mem_data_valid cache_config
     ((snd (getYear cache_config online_world 2025))\<lparr>now := 3900000000\<rparr>) = Inr True"
    by simp
  with r y have s: "getYear cache_config
     ((snd (getYear cache_config online_world 2025))
        \<lparr>now := 3900000000, disk := Map.empty, remote := remote_down\<rparr>) 2025 =
     (Inr (Some cal_2025),
      (snd (getYear cache_config online_world 2025))
        \<lparr>now := 3900000000, disk := Map.empty, remote := remote_down\<rparr>)"
    by blast
  from c m0 v0 gf n m s show ?thesis by simp
qed

subsection \<open>Priming without force\<close>

text \<open>
  C9. \<^verbatim>\<open>cache_year(2025, forced=False)\<close> on a fresh cache file that holds a valid
  document makes no request and does not raise, but it returns \<^verbatim>\<open>None\<close>, not the
  document of the file, and leaves the memory holder empty: the method ends without a
  \<^verbatim>\<open>return\<close> on that path.
\<close>

theorem cache_year_unforced_fresh_file:
  "is_cache_file_valid cache_config warm_world 2025 = Inr True \<and>
   map_option content (disk warm_world 2025) = Some (JDoc cal_2025) \<and>
   cache_year cache_config warm_world 2025 False = (Inr None, warm_world)"
  by (simp add: cache_year_def validity_defs warm_world_def cache_config_def zone_utc_def)

end
